theory Spec2Isabelle
  imports Main
begin

section \<open>The yum package manager of kiwi: data model\<close>

text \<open>
  The theory embeds \<^verbatim>\<open>kiwi/package_manager/yum.py\<close>, class
  \<^verbatim>\<open>PackageManagerYum\<close>. The instance is a record of the attributes the methods
  read and write; a method takes the instance and returns the updated one. The
  collaborators the class calls but does not define (\<^verbatim>\<open>Command.run\<close>,
  \<^verbatim>\<open>Command.call\<close>, \<^verbatim>\<open>Path.which\<close>, \<^verbatim>\<open>root_bind.move_to_root\<close>) are
  parameters, collected in a record, so every theorem holds for all of their behaviours.
\<close>

type_synonym env = "(string \<times> string) list"

record package_manager =
  package_requests :: "string list"
  collection_requests :: "string list"
  exclude_requests :: "string list"
  custom_args :: "string list"
  yum_args :: "string list"
  command_env :: env
  root_dir :: string

text \<open>
  The collaborators as seen during one method call.
  \<^item> \<open>Command_run w cmd\<close> is \<open>True\<close> when \<^verbatim>\<open>Command.run(cmd)\<close> returns and
    \<open>False\<close> when it raises (a failed command raises, as \<^verbatim>\<open>raise_on_error\<close>
    is left at its default).
  \<^item> \<open>Command_call w cmd e\<close> is \<open>True\<close> when \<^verbatim>\<open>Command.call(cmd, e)\<close> returns the
    handle of the started process and \<open>False\<close> when it raises.
  \<^item> \<open>Path_which w filename custom_env access_mode\<close> is the path found, or \<open>None\<close>.
  \<^item> \<open>move_to_root w args\<close> is the argument list rewritten for use inside the chroot.
\<close>

record collaborators =
  Command_run :: "string list \<Rightarrow> bool"
  Command_call :: "string list \<Rightarrow> env \<Rightarrow> bool"
  Path_which :: "string \<Rightarrow> env option \<Rightarrow> nat \<Rightarrow> string option"
  move_to_root :: "string list \<Rightarrow> string list"

text \<open>
  What a raise carries: \<^verbatim>\<open>KiwiRequestError\<close> with its message, or the exception of
  a failed external command, with the command that failed.
\<close>

datatype error = KiwiRequestError string | CommandFailure "string list"

text \<open>The external commands a method issues, in order.\<close>

datatype event = Run "string list" | Call "string list" env

text \<open>The handle \<^verbatim>\<open>Command.call\<close> returns: the process started and its environment.\<close>

datatype process = Process "string list" env

record outcome =
  returned :: "error + process"
  after :: package_manager
  issued :: "event list"

definition X_OK :: nat where
  "X_OK = 1"

definition os_sep :: string where
  "os_sep = ''/''"

definition dquote :: char where
  "dquote = CHR 0x22"

definition strong_flag :: string where
  "strong_flag = ''--setopt=requires_policy=strong''"

text \<open>Python's \<^verbatim>\<open>sep.join(xs)\<close>.\<close>

fun join :: "string \<Rightarrow> string list \<Rightarrow> string" where
  "join sep [] = []"
| "join sep [x] = x"
| "join sep (x # y # ys) = x @ sep @ join sep (y # ys)"

text \<open>Python's truth value of the result of \<^verbatim>\<open>Path.which\<close>.\<close>

fun truthy :: "string option \<Rightarrow> bool" where
  "truthy None = False"
| "truthy (Some p) = (p \<noteq> [])"

section \<open>Request queue\<close>

definition post_init ::
  "string list option \<Rightarrow> string list \<Rightarrow> env \<Rightarrow> package_manager \<Rightarrow> package_manager" where
  "post_init args runtime_yum_args runtime_command_env s =
     s\<lparr>custom_args := (case args of None \<Rightarrow> [] | Some a \<Rightarrow> if a = [] then [] else a),
       yum_args := runtime_yum_args,
       command_env := runtime_command_env\<rparr>"

definition request_package :: "string \<Rightarrow> package_manager \<Rightarrow> package_manager" where
  "request_package name s = s\<lparr>package_requests := package_requests s @ [name]\<rparr>"

definition request_collection :: "string \<Rightarrow> package_manager \<Rightarrow> package_manager" where
  "request_collection name s =
     s\<lparr>collection_requests := collection_requests s @ [[dquote] @ name @ [dquote]]\<rparr>"

definition request_product :: "string \<Rightarrow> package_manager \<Rightarrow> package_manager" where
  "request_product name s = s"

definition request_package_exclusion :: "string \<Rightarrow> package_manager \<Rightarrow> package_manager" where
  "request_package_exclusion name s = s\<lparr>exclude_requests := exclude_requests s @ [name]\<rparr>"

text \<open>
  Modelled from the spec: \<^verbatim>\<open>cleanup_requests\<close> is a method of the base class
  \<^verbatim>\<open>PackageManagerBase\<close>, which is not among the sources. The specification says that
  it empties all three lists unconditionally and has no other effect.
\<close>

definition cleanup_requests :: "package_manager \<Rightarrow> package_manager" where
  "cleanup_requests s =
     s\<lparr>package_requests := [], collection_requests := [], exclude_requests := []\<rparr>"

section \<open>Binary resolver\<close>

definition get_yum_binary_name :: "collaborators \<Rightarrow> string option \<Rightarrow> string" where
  "get_yum_binary_name w root =
     (let yum_binary = ''yum'';
          yum_search_env =
            (case root of
               None \<Rightarrow> None
             | Some r \<Rightarrow>
                 if r \<noteq> [] then Some [(''PATH'', join os_sep [r, ''usr'', ''bin''])]
                 else None)
      in if truthy (Path_which w ''yum-deprecated'' yum_search_env X_OK)
         then ''yum-deprecated'' else yum_binary)"

section \<open>Command synthesis\<close>

definition process_install_requests_bootstrap ::
  "collaborators \<Rightarrow> package_manager \<Rightarrow> outcome" where
  "process_install_requests_bootstrap w s =
     (let yum = get_yum_binary_name w None;
          makecache = [yum] @ yum_args s @ [''makecache'']
      in if \<not> Command_run w makecache
         then \<lparr>returned = Inl (CommandFailure makecache), after = s,
               issued = [Run makecache]\<rparr>
         else
           let bash_command =
                 [yum] @ yum_args s @ [''--installroot'', root_dir s] @ custom_args s
                 @ [''install''] @ package_requests s;
               bash_command =
                 (if collection_requests s \<noteq> []
                  then bash_command @ [''&&'', yum] @ yum_args s
                       @ [''--installroot'', root_dir s] @ custom_args s
                       @ [''groupinstall''] @ collection_requests s
                  else bash_command);
               s = cleanup_requests s;
               cmd = [''bash'', ''-c'', join '' '' bash_command]
           in \<lparr>returned =
                  (if Command_call w cmd (command_env s)
                   then Inr (Process cmd (command_env s)) else Inl (CommandFailure cmd)),
                after = s,
                issued = [Run makecache, Call cmd (command_env s)]\<rparr>)"

definition process_install_requests :: "collaborators \<Rightarrow> package_manager \<Rightarrow> outcome" where
  "process_install_requests w s =
     (let yum = get_yum_binary_name w (Some (root_dir s));
          s = (if exclude_requests s \<noteq> []
               then s\<lparr>custom_args :=
                        custom_args s @ map (\<lambda>package. ''--exclude='' @ package)
                                            (exclude_requests s)\<rparr>
               else s);
          rebuilddb = [''chroot'', root_dir s, ''rpm'', ''--rebuilddb'']
      in if \<not> Command_run w rebuilddb
         then \<lparr>returned = Inl (CommandFailure rebuilddb), after = s,
               issued = [Run rebuilddb]\<rparr>
         else
           let chroot_yum_args = move_to_root w (yum_args s);
               bash_command =
                 [''chroot'', root_dir s, yum] @ chroot_yum_args @ custom_args s
                 @ [''install''] @ package_requests s;
               bash_command =
                 (if collection_requests s \<noteq> []
                  then bash_command @ [''&&'', ''chroot'', root_dir s, yum]
                       @ chroot_yum_args @ custom_args s
                       @ [''groupinstall''] @ collection_requests s
                  else bash_command);
               s = cleanup_requests s;
               cmd = [''bash'', ''-c'', join '' '' bash_command]
           in \<lparr>returned =
                  (if Command_call w cmd (command_env s)
                   then Inr (Process cmd (command_env s)) else Inl (CommandFailure cmd)),
                after = s,
                issued = [Run rebuilddb, Call cmd (command_env s)]\<rparr>)"

section \<open>Deletion filter\<close>

text \<open>
  The loop over \<^verbatim>\<open>self.package_requests\<close>: each query is issued, and the item is
  appended to \<^verbatim>\<open>delete_items\<close> when the query returns; an exception of the query is
  caught and ignored. The loop state is the pair of \<^verbatim>\<open>delete_items\<close> and the commands
  issued so far.
\<close>

fun delete_loop ::
  "collaborators \<Rightarrow> string \<Rightarrow> string list \<Rightarrow> string list \<times> event list
   \<Rightarrow> string list \<times> event list" where
  "delete_loop w root [] acc = acc"
| "delete_loop w root (delete_item # rest) (delete_items, evs) =
     (let query = [''chroot'', root, ''rpm'', ''-q'', delete_item]
      in if Command_run w query
         then delete_loop w root rest (delete_items @ [delete_item], evs @ [Run query])
         else delete_loop w root rest (delete_items, evs @ [Run query]))"

definition process_delete_requests ::
  "collaborators \<Rightarrow> package_manager \<Rightarrow> bool \<Rightarrow> outcome" where
  "process_delete_requests w s force =
     (let (delete_items, evs) = delete_loop w (root_dir s) (package_requests s) ([], [])
      in if delete_items = []
         then \<lparr>returned =
                  Inl (KiwiRequestError
                         ''None of the requested packages to delete are installed''),
               after = s, issued = evs\<rparr>
         else
           let delete_options = [''--nodeps'', ''--allmatches'', ''--noscripts''];
               s = cleanup_requests s;
               cmd = [''chroot'', root_dir s, ''rpm'', ''-e''] @ delete_options @ delete_items
           in \<lparr>returned =
                  (if Command_call w cmd (command_env s)
                   then Inr (Process cmd (command_env s)) else Inl (CommandFailure cmd)),
                after = s,
                issued = evs @ [Call cmd (command_env s)]\<rparr>)"

definition update :: "collaborators \<Rightarrow> package_manager \<Rightarrow> outcome" where
  "update w s =
     (let yum = get_yum_binary_name w (Some (root_dir s));
          chroot_yum_args = move_to_root w (yum_args s);
          cmd = [''chroot'', root_dir s, yum] @ chroot_yum_args @ custom_args s @ [''upgrade'']
      in \<lparr>returned =
             (if Command_call w cmd (command_env s)
              then Inr (Process cmd (command_env s)) else Inl (CommandFailure cmd)),
           after = s,
           issued = [Call cmd (command_env s)]\<rparr>)"

section \<open>Policy toggles\<close>

definition process_only_required :: "package_manager \<Rightarrow> package_manager" where
  "process_only_required s =
     (if strong_flag \<notin> set (custom_args s)
      then s\<lparr>custom_args := custom_args s @ [strong_flag]\<rparr> else s)"

text \<open>Python's \<^verbatim>\<open>list.remove\<close> deletes the first occurrence: \<^const>\<open>remove1\<close>.\<close>

definition process_plus_recommended :: "package_manager \<Rightarrow> package_manager" where
  "process_plus_recommended s =
     (if strong_flag \<in> set (custom_args s)
      then s\<lparr>custom_args := remove1 strong_flag (custom_args s)\<rparr> else s)"

definition database_consistent :: "collaborators \<Rightarrow> package_manager \<Rightarrow> bool" where
  "database_consistent w s =
     (if Command_run w [''chroot'', root_dir s, ''rpmdb'', ''--initdb''] then True else False)"

definition dump_reload_package_database :: "int \<Rightarrow> package_manager \<Rightarrow> package_manager" where
  "dump_reload_package_database version s = s"

section \<open>Output matchers\<close>

text \<open>
  The matchers build a pattern string and hand it to \<^verbatim>\<open>re.match\<close>. The fragment of
  Python's \<^verbatim>\<open>re\<close> module they use is modelled on strings: \<^verbatim>\<open>re.escape\<close>, the
  reading of a pattern (characters, \<^verbatim>\<open>.\<close>, a backslash before a character that is
  neither a letter nor a digit, and the postfix \<^verbatim>\<open>*\<close>), and matching at the start of
  the text. A pattern outside the fragment is read as \<open>None\<close>.
\<close>

definition backslash :: char where
  "backslash = CHR 0x5C"

definition newline :: char where
  "newline = CHR 0x0A"

text \<open>The characters \<^verbatim>\<open>re.escape\<close> puts a backslash before.\<close>

definition re_special :: "char \<Rightarrow> bool" where
  "re_special c =
     (c \<in> set (''()[]{}?*+-|^$.&~# '' @ [backslash, CHR 0x09, CHR 0x0A, CHR 0x0D, CHR 0x0B, CHR 0x0C]))"

fun re_escape :: "string \<Rightarrow> string" where
  "re_escape [] = []"
| "re_escape (c # cs) = (if re_special c then [backslash, c] else [c]) @ re_escape cs"

definition is_alnum :: "char \<Rightarrow> bool" where
  "is_alnum c =
     (let n = (of_char c :: nat)
      in (48 \<le> n \<and> n \<le> 57) \<or> (65 \<le> n \<and> n \<le> 90) \<or> (97 \<le> n \<and> n \<le> 122))"

datatype atom = Dot | Literal char

datatype token = TAtom atom | TStar

datatype item = One atom | Many atom

fun re_lex :: "string \<Rightarrow> token list option" where
  "re_lex [] = Some []"
| "re_lex (c # cs) =
     (if c = backslash then
        (case cs of
           [] \<Rightarrow> None
         | d # ds \<Rightarrow>
             if is_alnum d then None
             else map_option (Cons (TAtom (Literal d))) (re_lex ds))
      else if c = CHR ''.'' then map_option (Cons (TAtom Dot)) (re_lex cs)
      else if c = CHR ''*'' then map_option (Cons TStar) (re_lex cs)
      else if c \<in> set ''^$+?{}[]|()'' then None
      else map_option (Cons (TAtom (Literal c))) (re_lex cs))"

fun re_group :: "token list \<Rightarrow> item list option" where
  "re_group [] = Some []"
| "re_group (TStar # ts) = None"
| "re_group (TAtom a # TStar # ts) = map_option (Cons (Many a)) (re_group ts)"
| "re_group (TAtom a # ts) = map_option (Cons (One a)) (re_group ts)"

definition re_compile :: "string \<Rightarrow> item list option" where
  "re_compile pattern = Option.bind (re_lex pattern) re_group"

fun atom_matches :: "atom \<Rightarrow> char \<Rightarrow> bool" where
  "atom_matches Dot c = (c \<noteq> newline)"
| "atom_matches (Literal a) c = (a = c)"

text \<open>
  Whether some prefix of the text matches the pattern: \<^verbatim>\<open>re.match\<close> anchors the match
  at the start of the text and does not ask it to reach the end. A starred atom may take
  any number of characters, as backtracking tries them all.
\<close>

fun match_here :: "item list \<Rightarrow> string \<Rightarrow> bool" where
  "match_here [] s = True"
| "match_here (One a # r) [] = False"
| "match_here (One a # r) (c # s) = (atom_matches a c \<and> match_here r s)"
| "match_here (Many a # r) [] = match_here r []"
| "match_here (Many a # r) (c # s) =
     ((atom_matches a c \<and> match_here (Many a # r) s) \<or> match_here r (c # s))"

text \<open>
  \<^verbatim>\<open>re.match(pattern, string)\<close>: \<open>Some True\<close> for a match object, \<open>Some False\<close>
  for \<^verbatim>\<open>None\<close>; \<open>None\<close> when the pattern is outside the modelled fragment.
\<close>

definition re_match :: "string \<Rightarrow> string \<Rightarrow> bool option" where
  "re_match pattern string = map_option (\<lambda>p. match_here p string) (re_compile pattern)"

definition match_package_installed :: "string \<Rightarrow> string \<Rightarrow> bool option" where
  "match_package_installed package_name yum_output =
     re_match (''.*Installing : '' @ re_escape package_name @ ''.*'') yum_output"

definition match_package_deleted :: "string \<Rightarrow> string \<Rightarrow> bool option" where
  "match_package_deleted package_name yum_output =
     re_match (''.*Removing: '' @ re_escape package_name @ ''.*'') yum_output"

section \<open>Sequences of method calls on one instance\<close>

text \<open>
  A caller drives the instance by a sequence of method calls. Each call is paired with the
  collaborators as they behave during that call, so the outside world may change from one
  call to the next. A caller that catches the exception of a call goes on with the instance
  as the call left it.
\<close>

datatype member_call =
    Request_package string
  | Request_collection string
  | Request_product string
  | Request_package_exclusion string
  | Process_install_requests_bootstrap
  | Process_install_requests
  | Process_delete_requests bool
  | Update
  | Process_only_required
  | Process_plus_recommended
  | Match_package_installed string string
  | Match_package_deleted string string
  | Database_consistent
  | Dump_reload_package_database int

fun invoke :: "collaborators \<Rightarrow> member_call \<Rightarrow> package_manager \<Rightarrow> package_manager" where
  "invoke w (Request_package name) s = request_package name s"
| "invoke w (Request_collection name) s = request_collection name s"
| "invoke w (Request_product name) s = request_product name s"
| "invoke w (Request_package_exclusion name) s = request_package_exclusion name s"
| "invoke w Process_install_requests_bootstrap s = after (process_install_requests_bootstrap w s)"
| "invoke w Process_install_requests s = after (process_install_requests w s)"
| "invoke w (Process_delete_requests force) s = after (process_delete_requests w s force)"
| "invoke w Update s = after (update w s)"
| "invoke w Process_only_required s = process_only_required s"
| "invoke w Process_plus_recommended s = process_plus_recommended s"
| "invoke w (Match_package_installed package_name yum_output) s = s"
| "invoke w (Match_package_deleted package_name yum_output) s = s"
| "invoke w Database_consistent s = s"
| "invoke w (Dump_reload_package_database version) s = dump_reload_package_database version s"

fun invoke_all :: "(collaborators \<times> member_call) list \<Rightarrow> package_manager \<Rightarrow> package_manager" where
  "invoke_all [] s = s"
| "invoke_all ((w, m) # ms) s = invoke_all ms (invoke w m s)"

section \<open>Notions used in the statements\<close>

definition queues_empty :: "package_manager \<Rightarrow> bool" where
  "queues_empty s =
     (package_requests s = [] \<and> collection_requests s = [] \<and> exclude_requests s = [])"

definition same_queues :: "package_manager \<Rightarrow> package_manager \<Rightarrow> bool" where
  "same_queues s t =
     (package_requests s = package_requests t
      \<and> collection_requests s = collection_requests t
      \<and> exclude_requests s = exclude_requests t)"

fun is_call :: "event \<Rightarrow> bool" where
  "is_call (Call cmd e) = True"
| "is_call (Run cmd) = False"

text \<open>
  The reading of the install matcher that takes the phrase itself to be anchored: the text
  begins with \<^verbatim>\<open>Installing : \<close> followed by the name. It is compared with
  \<^const>\<open>match_package_installed\<close> below.
\<close>

definition spec_line_reports_install :: "string \<Rightarrow> string \<Rightarrow> bool" where
  "spec_line_reports_install name line =
     (take (length (''Installing : '' @ name)) line = ''Installing : '' @ name)"

subsection \<open>A concrete instance and a concrete outside world\<close>

text \<open>
  An instance with empty queues for the root \<^verbatim>\<open>/mnt\<close>, and a world in which a
  command fails exactly when its last word is listed, every process starts, the
  arguments need no rewriting, and \<^verbatim>\<open>yum-deprecated\<close> is found under
  \<^verbatim>\<open>/mnt/usr/bin\<close> only.
\<close>

definition demo_instance :: package_manager where
  "demo_instance =
     \<lparr>package_requests = [], collection_requests = [], exclude_requests = [],
      custom_args = [], yum_args = [''-y''], command_env = [], root_dir = ''/mnt''\<rparr>"

definition demo_world :: "string list \<Rightarrow> collaborators" where
  "demo_world failing =
     \<lparr>Command_run = (\<lambda>cmd. \<not> (cmd \<noteq> [] \<and> last cmd \<in> set failing)),
      Command_call = (\<lambda>cmd e. True),
      Path_which = (\<lambda>filename custom_env access_mode.
         if filename = ''yum-deprecated''
            \<and> custom_env = Some [(''PATH'', ''/mnt/usr/bin'')] \<and> access_mode = X_OK
         then Some ''/mnt/usr/bin/yum-deprecated'' else None),
      move_to_root = (\<lambda>args. args)\<rparr>"

section \<open>Auxiliary facts\<close>

subsection \<open>Joining and the fields of the instance\<close>

lemma join_append:
  "xs \<noteq> [] \<Longrightarrow> ys \<noteq> [] \<Longrightarrow> join sep (xs @ ys) = join sep xs @ sep @ join sep ys"
proof (induction sep xs rule: join.induct)
  case (1 sep)
  then show ?case by simp
next
  case (2 sep x)
  then show ?case by (cases ys) simp_all
next
  case (3 sep x y ys')
  then show ?case by simp
qed

lemma join_and:
  assumes "I \<noteq> []" and "G \<noteq> []"
  shows "join '' '' (I @ [''&&''] @ G) = join '' '' I @ '' && '' @ join '' '' G"
proof -
  have "join '' '' (I @ [''&&''] @ G) = join '' '' I @ '' '' @ join '' '' ([''&&''] @ G)"
    using assms by (intro join_append) simp_all
  also have "join '' '' ([''&&''] @ G) = ''&&'' @ '' '' @ join '' '' G"
    using assms by (cases G) simp_all
  finally show ?thesis by simp
qed

lemma cleanup_requests_fields [simp]:
  "package_requests (cleanup_requests s) = []"
  "collection_requests (cleanup_requests s) = []"
  "exclude_requests (cleanup_requests s) = []"
  "custom_args (cleanup_requests s) = custom_args s"
  "yum_args (cleanup_requests s) = yum_args s"
  "command_env (cleanup_requests s) = command_env s"
  "root_dir (cleanup_requests s) = root_dir s"
  by (simp_all add: cleanup_requests_def)

lemma queues_empty_cleanup [simp]: "queues_empty (cleanup_requests s)"
  by (simp add: queues_empty_def)

subsection \<open>The deletion loop is a filter\<close>

lemma delete_loop_filter:
  "delete_loop w root ps (acc, evs) =
     (acc @ filter (\<lambda>p. Command_run w [''chroot'', root, ''rpm'', ''-q'', p]) ps,
      evs @ map (\<lambda>p. Run [''chroot'', root, ''rpm'', ''-q'', p]) ps)"
  by (induction ps arbitrary: acc evs) (simp_all add: Let_def)

subsection \<open>The queues after a processing call\<close>

lemma bootstrap_queues:
  "(if list_ex is_call (issued (process_install_requests_bootstrap w s))
    then queues_empty (after (process_install_requests_bootstrap w s))
    else isl (returned (process_install_requests_bootstrap w s))
         \<and> same_queues (after (process_install_requests_bootstrap w s)) s)"
  by (simp add: process_install_requests_bootstrap_def Let_def same_queues_def)

lemma install_queues:
  "(if list_ex is_call (issued (process_install_requests w s))
    then queues_empty (after (process_install_requests w s))
    else isl (returned (process_install_requests w s))
         \<and> same_queues (after (process_install_requests w s)) s)"
  by (simp add: process_install_requests_def Let_def same_queues_def)

lemma delete_queues:
  "(if list_ex is_call (issued (process_delete_requests w s force))
    then queues_empty (after (process_delete_requests w s force))
    else isl (returned (process_delete_requests w s force))
         \<and> same_queues (after (process_delete_requests w s force)) s)"
  by (simp add: process_delete_requests_def delete_loop_filter Let_def same_queues_def
      list_ex_iff image_iff)

subsection \<open>The commands an install issues\<close>

lemma bootstrap_issued:
  assumes "Command_run w ([get_yum_binary_name w None] @ yum_args s @ [''makecache''])"
  shows "issued (process_install_requests_bootstrap w s) =
      [Run ([get_yum_binary_name w None] @ yum_args s @ [''makecache'']),
       Call [''bash'', ''-c'',
             join '' '' ([get_yum_binary_name w None] @ yum_args s
                         @ [''--installroot'', root_dir s] @ custom_args s
                         @ [''install''] @ package_requests s)
             @ (if collection_requests s = [] then []
                else '' && '' @
                     join '' '' ([get_yum_binary_name w None] @ yum_args s
                                 @ [''--installroot'', root_dir s] @ custom_args s
                                 @ [''groupinstall''] @ collection_requests s))]
         (command_env s)]"
proof -
  let ?yum = "get_yum_binary_name w None"
  let ?I = "[?yum] @ yum_args s @ [''--installroot'', root_dir s] @ custom_args s
            @ [''install''] @ package_requests s"
  let ?G = "[?yum] @ yum_args s @ [''--installroot'', root_dir s] @ custom_args s
            @ [''groupinstall''] @ collection_requests s"
  have "join '' '' (?I @ [''&&''] @ ?G) = join '' '' ?I @ '' '' @ join '' '' ([''&&''] @ ?G)"
    by (rule join_append) simp_all
  also have "join '' '' ([''&&''] @ ?G) = ''&&'' @ '' '' @ join '' '' ?G"
    by (subst join_append) simp_all
  finally have split: "join '' '' (?I @ [''&&''] @ ?G) =
                         join '' '' ?I @ '' && '' @ join '' '' ?G"
    by simp
  have unsplit: "issued (process_install_requests_bootstrap w s) =
      [Run ([?yum] @ yum_args s @ [''makecache'']),
       Call [''bash'', ''-c'',
             join '' '' (if collection_requests s = [] then ?I else ?I @ [''&&''] @ ?G)]
         (command_env s)]"
    using assms
    by (simp add: process_install_requests_bootstrap_def Let_def del: join.simps)
  show ?thesis
    by (simp only: unsplit split if_distrib [of "join '' ''"] if_distrib [of "\<lambda>x. _ @ x"] append_Nil2 cong: if_cong)
qed

lemma install_issued:
  assumes "Command_run w [''chroot'', root_dir s, ''rpm'', ''--rebuilddb'']"
  shows "issued (process_install_requests w s) =
           [Run [''chroot'', root_dir s, ''rpm'', ''--rebuilddb''],
            Call [''bash'', ''-c'',
                  join '' ''
                    (([''chroot'', root_dir s, get_yum_binary_name w (Some (root_dir s))]
                      @ move_to_root w (yum_args s)
                      @ (custom_args s @ map ((@) ''--exclude='') (exclude_requests s))
                      @ [''install''] @ package_requests s)
                     @ (if collection_requests s \<noteq> []
                        then [''&&'', ''chroot'', root_dir s,
                              get_yum_binary_name w (Some (root_dir s))]
                             @ move_to_root w (yum_args s)
                             @ (custom_args s @ map ((@) ''--exclude='') (exclude_requests s))
                             @ [''groupinstall''] @ collection_requests s
                        else []))]
              (command_env s)]"
  using assms
  by (simp add: process_install_requests_def Let_def del: join.simps)

lemma install_command_tokens:
  assumes "Command_run w [''chroot'', root_dir s, ''rpm'', ''--rebuilddb'']"
  shows "\<exists>ts. issued (process_install_requests w s) =
           [Run [''chroot'', root_dir s, ''rpm'', ''--rebuilddb''],
            Call [''bash'', ''-c'', join '' '' ts] (command_env s)]
         \<and> set (custom_args s) \<subseteq> set ts"
  by (subst install_issued [OF assms], intro exI conjI, rule refl) auto

lemma install_issued_split:
  assumes "Command_run w [''chroot'', root_dir s, ''rpm'', ''--rebuilddb'']"
  shows "issued (process_install_requests w s) =
      [Run [''chroot'', root_dir s, ''rpm'', ''--rebuilddb''],
       Call [''bash'', ''-c'',
             join '' '' ([''chroot'', root_dir s, get_yum_binary_name w (Some (root_dir s))]
                         @ move_to_root w (yum_args s)
                         @ (custom_args s @ map ((@) ''--exclude='') (exclude_requests s))
                         @ [''install''] @ package_requests s)
             @ (if collection_requests s = [] then []
                else '' && '' @
                     join '' '' ([''chroot'', root_dir s,
                                  get_yum_binary_name w (Some (root_dir s))]
                                 @ move_to_root w (yum_args s)
                                 @ (custom_args s
                                    @ map ((@) ''--exclude='') (exclude_requests s))
                                 @ [''groupinstall''] @ collection_requests s))]
         (command_env s)]"
proof -
  let ?yum = "get_yum_binary_name w (Some (root_dir s))"
  let ?args = "custom_args s @ map ((@) ''--exclude='') (exclude_requests s)"
  let ?I = "[''chroot'', root_dir s, ?yum] @ move_to_root w (yum_args s) @ ?args
            @ [''install''] @ package_requests s"
  let ?G = "[''chroot'', root_dir s, ?yum] @ move_to_root w (yum_args s) @ ?args
            @ [''groupinstall''] @ collection_requests s"
  have split: "join '' '' (?I @ [''&&''] @ ?G) = join '' '' ?I @ '' && '' @ join '' '' ?G"
    by (rule join_and) simp_all
  have unsplit: "issued (process_install_requests w s) =
      [Run [''chroot'', root_dir s, ''rpm'', ''--rebuilddb''],
       Call [''bash'', ''-c'',
             join '' '' (if collection_requests s = [] then ?I else ?I @ [''&&''] @ ?G)]
         (command_env s)]"
    using install_issued [OF assms] by (simp del: join.simps)
  show ?thesis
    by (simp only: unsplit split if_distrib [of "join '' ''"] if_distrib [of "\<lambda>x. _ @ x"]
        append_Nil2 cong: if_cong)
qed

subsection \<open>What the methods do to the custom arguments\<close>

lemma custom_args_after_bootstrap:
  "custom_args (after (process_install_requests_bootstrap w s)) = custom_args s"
  by (simp add: process_install_requests_bootstrap_def Let_def)

lemma custom_args_after_install:
  "custom_args (after (process_install_requests w s)) =
     custom_args s @ map ((@) ''--exclude='') (exclude_requests s)"
  by (simp add: process_install_requests_def Let_def)

lemma custom_args_after_delete:
  "custom_args (after (process_delete_requests w s force)) = custom_args s"
  by (simp add: process_delete_requests_def delete_loop_filter Let_def)

lemma custom_args_after_update:
  "custom_args (after (update w s)) = custom_args s"
  by (simp add: update_def Let_def)

lemmas custom_args_after =
  custom_args_after_bootstrap custom_args_after_install custom_args_after_delete
  custom_args_after_update

lemma exclude_not_strong_flag: "''--exclude='' @ p \<noteq> strong_flag"
  by (simp add: strong_flag_def)

lemma invoke_keeps_token:
  assumes "t \<noteq> strong_flag" and "t \<in> set (custom_args s)"
  shows "t \<in> set (custom_args (invoke w m s))"
  using assms
  by (cases m)
     (auto simp add: custom_args_after request_package_def request_collection_def
        request_product_def request_package_exclusion_def process_only_required_def
        process_plus_recommended_def dump_reload_package_database_def)

lemma invoke_all_keeps_token:
  "t \<noteq> strong_flag \<Longrightarrow> t \<in> set (custom_args s) \<Longrightarrow> t \<in> set (custom_args (invoke_all ms s))"
proof (induction ms arbitrary: s)
  case Nil
  then show ?case by simp
next
  case (Cons wm ms)
  obtain w m where wm: "wm = (w, m)" by (cases wm)
  from Cons.prems have "t \<in> set (custom_args (invoke w m s))"
    by (rule invoke_keeps_token)
  with Cons.IH Cons.prems(1) show ?case by (simp add: wm)
qed

lemma count_remove1:
  "x \<in> set xs \<Longrightarrow> count_list (remove1 x xs) x = count_list xs x - 1"
  by (induction xs) auto

lemma count_exclude_map [simp]:
  "count_list (map ((@) ''--exclude='') ps) strong_flag = 0"
  by (induction ps) (simp_all add: strong_flag_def)

lemma count_after_install:
  "count_list (custom_args (after (process_install_requests w s))) strong_flag =
     count_list (custom_args s) strong_flag"
  by (simp only: custom_args_after_install count_list_append count_exclude_map add_0_right)

lemma only_required_count:
  assumes "count_list (custom_args s) strong_flag \<le> 1"
  shows "count_list (custom_args (process_only_required s)) strong_flag = 1"
proof (cases "strong_flag \<in> set (custom_args s)")
  case True
  then have "count_list (custom_args s) strong_flag \<noteq> 0"
    by (simp only: count_list_0_iff not_not)
  with assms True show ?thesis by (simp add: process_only_required_def)
next
  case False
  then have "count_list (custom_args s) strong_flag = 0"
    by (simp only: count_list_0_iff not_False_eq_True)
  with False show ?thesis by (simp add: process_only_required_def)
qed

lemma plus_recommended_count:
  assumes "count_list (custom_args s) strong_flag \<le> 1"
  shows "count_list (custom_args (process_plus_recommended s)) strong_flag = 0"
proof (cases "strong_flag \<in> set (custom_args s)")
  case True
  then have "count_list (remove1 strong_flag (custom_args s)) strong_flag =
               count_list (custom_args s) strong_flag - 1"
    by (rule count_remove1)
  with assms True show ?thesis by (simp add: process_plus_recommended_def)
next
  case False
  then show ?thesis by (simp add: process_plus_recommended_def count_list_0_iff)
qed

lemma invoke_keeps_at_most_once:
  assumes "count_list (custom_args s) strong_flag \<le> 1"
  shows "count_list (custom_args (invoke w m s)) strong_flag \<le> 1"
proof (cases m)
  case Process_install_requests
  with assms show ?thesis by (simp add: count_after_install)
next
  case Process_only_required
  with only_required_count [OF assms] show ?thesis by simp
next
  case Process_plus_recommended
  with plus_recommended_count [OF assms] show ?thesis by simp
qed (use assms in \<open>simp_all add: custom_args_after_bootstrap custom_args_after_delete
        custom_args_after_update request_package_def request_collection_def
        request_product_def request_package_exclusion_def
        dump_reload_package_database_def\<close>)

lemma invoke_all_keeps_at_most_once:
  "count_list (custom_args s) strong_flag \<le> 1 \<Longrightarrow>
   count_list (custom_args (invoke_all ms s)) strong_flag \<le> 1"
proof (induction ms arbitrary: s)
  case Nil
  then show ?case by simp
next
  case (Cons wm ms)
  obtain w m where wm: "wm = (w, m)" by (cases wm)
  from Cons.prems have "count_list (custom_args (invoke w m s)) strong_flag \<le> 1"
    by (rule invoke_keeps_at_most_once)
  then have "count_list (custom_args (invoke_all ms (invoke w m s))) strong_flag \<le> 1"
    by (rule Cons.IH)
  then show ?case by (simp add: wm)
qed

lemma only_required_idem:
  "process_only_required (process_only_required s) = process_only_required s"
  by (simp add: process_only_required_def)

lemma plus_recommended_idem:
  assumes "count_list (custom_args s) strong_flag \<le> 1"
  shows "process_plus_recommended (process_plus_recommended s) = process_plus_recommended s"
proof -
  have "strong_flag \<notin> set (custom_args (process_plus_recommended s))"
    using plus_recommended_count [OF assms] by (simp add: count_list_0_iff)
  then show ?thesis
    by (subst (1) process_plus_recommended_def) simp
qed

subsection \<open>Reading and matching the install pattern\<close>

lemma re_special_not_alnum: "re_special c \<Longrightarrow> \<not> is_alnum c"
  by (auto simp add: re_special_def is_alnum_def backslash_def)

lemma not_special_plain:
  assumes "\<not> re_special c"
  shows "c \<noteq> backslash" "c \<noteq> CHR ''.''" "c \<noteq> CHR ''*''" "c \<notin> set ''^$+?{}[]|()''"
  using assms by (auto simp add: re_special_def)

lemma re_lex_escaped_char:
  "re_special c \<Longrightarrow>
   re_lex (backslash # c # rest) = map_option (Cons (TAtom (Literal c))) (re_lex rest)"
  by (simp add: re_special_not_alnum)

lemma re_lex_plain_char:
  "\<not> re_special c \<Longrightarrow>
   re_lex (c # rest) = map_option (Cons (TAtom (Literal c))) (re_lex rest)"
  using not_special_plain [of c] by simp

lemma re_lex_escape:
  "re_lex (re_escape name @ rest) =
     map_option (\<lambda>ts. map (\<lambda>c. TAtom (Literal c)) name @ ts) (re_lex rest)"
proof (induction name)
  case Nil
  show ?case by (simp add: option.map_ident)
next
  case (Cons c cs)
  show ?case
  proof (cases "re_special c")
    case True
    then have "re_lex (re_escape (c # cs) @ rest) =
                 map_option (Cons (TAtom (Literal c))) (re_lex (re_escape cs @ rest))"
      using re_lex_escaped_char [OF True] by simp
    then show ?thesis
      by (simp only: Cons.IH option.map_comp comp_def list.map append_Cons)
  next
    case False
    then have "re_lex (re_escape (c # cs) @ rest) =
                 map_option (Cons (TAtom (Literal c))) (re_lex (re_escape cs @ rest))"
      using re_lex_plain_char [OF False] by simp
    then show ?thesis
      by (simp only: Cons.IH option.map_comp comp_def list.map append_Cons)
  qed
qed

lemma re_lex_installing:
  "re_lex (''.*Installing : '' @ rest) =
     map_option (\<lambda>ts. [TAtom Dot, TStar] @ map (\<lambda>c. TAtom (Literal c)) ''Installing : '' @ ts)
       (re_lex rest)"
  by (simp add: backslash_def option.map_comp comp_def)

lemma re_lex_dot_star: "re_lex ''.*'' = Some [TAtom Dot, TStar]"
  by (simp add: backslash_def)

lemma re_group_literals:
  "re_group (map (\<lambda>c. TAtom (Literal c)) xs @ TAtom a # ts) =
     map_option (\<lambda>r. map (\<lambda>c. One (Literal c)) xs @ r) (re_group (TAtom a # ts))"
proof (induction xs)
  case Nil
  show ?case by (simp add: option.map_ident)
next
  case (Cons x xs)
  then show ?case
    by (cases xs) (simp_all add: option.map_comp comp_def)
qed

lemma install_pattern_compiles:
  "re_compile (''.*Installing : '' @ re_escape name @ ''.*'') =
     Some (Many Dot # map (\<lambda>c. One (Literal c)) (''Installing : '' @ name) @ [Many Dot])"
proof -
  have "re_lex (''.*Installing : '' @ re_escape name @ ''.*'') =
          Some ([TAtom Dot, TStar]
                @ map (\<lambda>c. TAtom (Literal c)) (''Installing : '' @ name) @ [TAtom Dot, TStar])"
    by (simp only: re_lex_installing re_lex_escape re_lex_dot_star) simp
  moreover have "re_group ([TAtom Dot, TStar]
                @ map (\<lambda>c. TAtom (Literal c)) (''Installing : '' @ name) @ [TAtom Dot, TStar]) =
          Some (Many Dot # map (\<lambda>c. One (Literal c)) (''Installing : '' @ name) @ [Many Dot])"
    using re_group_literals [of "''Installing : '' @ name" Dot "[TStar]"] by simp
  ultimately show ?thesis by (simp add: re_compile_def)
qed

lemma match_here_literals:
  "match_here (map (\<lambda>c. One (Literal c)) xs @ r) s \<longleftrightarrow> (\<exists>t. s = xs @ t \<and> match_here r t)"
proof (induction xs arbitrary: s)
  case Nil
  show ?case by simp
next
  case (Cons x xs)
  show ?case by (cases s) (auto simp add: Cons.IH)
qed

lemma match_here_dot_star:
  "match_here (Many Dot # r) s \<longleftrightarrow>
     (\<exists>pre t. s = pre @ t \<and> newline \<notin> set pre \<and> match_here r t)"
proof (induction s)
  case Nil
  show ?case by simp
next
  case (Cons c s)
  show ?case
  proof
    assume "match_here (Many Dot # r) (c # s)"
    then consider "c \<noteq> newline" "match_here (Many Dot # r) s" | "match_here r (c # s)"
      by auto
    then show "\<exists>pre t. c # s = pre @ t \<and> newline \<notin> set pre \<and> match_here r t"
    proof cases
      case 1
      then obtain pre t where "s = pre @ t" "newline \<notin> set pre" "match_here r t"
        using Cons.IH by blast
      with 1 have "c # s = (c # pre) @ t \<and> newline \<notin> set (c # pre) \<and> match_here r t"
        by auto
      then show ?thesis by blast
    next
      case 2
      then have "c # s = [] @ (c # s) \<and> newline \<notin> set [] \<and> match_here r (c # s)"
        by simp
      then show ?thesis by blast
    qed
  next
    assume "\<exists>pre t. c # s = pre @ t \<and> newline \<notin> set pre \<and> match_here r t"
    then obtain pre t where p: "c # s = pre @ t" "newline \<notin> set pre" "match_here r t"
      by blast
    show "match_here (Many Dot # r) (c # s)"
    proof (cases pre)
      case Nil
      with p(1) have "t = c # s" by simp
      with p(3) show ?thesis by simp
    next
      case (Cons d pre')
      with p have "d = c" "s = pre' @ t" "c \<noteq> newline" "newline \<notin> set pre'"
        by auto
      with p(3) Cons.IH have "match_here (Many Dot # r) s" by blast
      with \<open>c \<noteq> newline\<close> show ?thesis by simp
    qed
  qed
qed

lemma match_here_trailing: "match_here [Many Dot] t"
  by (induction t) simp_all

lemma installed_example_exact: "match_package_installed ''foo'' ''Installing : foo-1.0'' = Some True"
  by code_simp

lemma installed_example_prefix: "match_package_installed ''foo'' ''Installing : foobar-1.0'' = Some True"
  by code_simp

lemma yum_binary_name_empty_root:
  "get_yum_binary_name w (Some []) = get_yum_binary_name w None"
  by (simp add: get_yum_binary_name_def)

section \<open>The claims\<close>

subsection \<open>C1: the request lists after a processing call\<close>

text \<open>
  Claim C1, as the code has it. Let \<open>out\<close> be the outcome of any of the three processing
  calls on any instance, in particular on one reached by a sequence of request calls.
  When the call returns, and also when it raises out of its final \<^verbatim>\<open>Command.call\<close>,
  the three request lists are empty: they are cleared just before that call. When the
  call raises earlier (the cache refresh or the database rebuild fails, or none of the
  packages to delete is installed), no process has been started and the three lists are
  as they were before the call.
\<close>

theorem queues_after_processing:
  assumes "out \<in> {process_install_requests_bootstrap w s, process_install_requests w s,
                  process_delete_requests w s force}"
  shows "(\<not> isl (returned out) \<longrightarrow> queues_empty (after out))
       \<and> (list_ex is_call (issued out) \<longrightarrow> queues_empty (after out))
       \<and> (\<not> list_ex is_call (issued out) \<longrightarrow>
            isl (returned out) \<and> same_queues (after out) s)"
proof -
  have "if list_ex is_call (issued out) then queues_empty (after out)
        else isl (returned out) \<and> same_queues (after out) s"
    using assms bootstrap_queues [of w s] install_queues [of w s] delete_queues [of w s force]
    by auto
  then show ?thesis by (auto split: if_splits)
qed

text \<open>Both cases on the concrete instance: a delete that returns, and one that raises.\<close>

theorem queues_after_processing_witness:
  "queues_empty (after (process_delete_requests (demo_world [])
                          (request_package ''a'' demo_instance) False))
   \<and> same_queues (after (process_delete_requests (demo_world [''a''])
                            (request_package ''a'' demo_instance) False))
        (request_package ''a'' demo_instance)"
proof -
  have a: "\<not> isl (returned (process_delete_requests (demo_world [])
                          (request_package ''a'' demo_instance) False))"
    by (simp add: Let_def process_delete_requests_def demo_world_def demo_instance_def
        request_package_def)
  have b: "\<not> list_ex is_call (issued (process_delete_requests (demo_world [''a''])
                          (request_package ''a'' demo_instance) False))"
    by (simp add: Let_def process_delete_requests_def demo_world_def demo_instance_def
        request_package_def)
  from a b
    queues_after_processing [of "process_delete_requests (demo_world [])
                          (request_package ''a'' demo_instance) False" "demo_world []"
        "request_package ''a'' demo_instance" False]
    queues_after_processing [of "process_delete_requests (demo_world [''a''])
                          (request_package ''a'' demo_instance) False" "demo_world [''a'']"
        "request_package ''a'' demo_instance" False]
  show ?thesis by simp
qed

text \<open>
  The lists are not empty after every raise: with package \<^verbatim>\<open>a\<close> requested and not
  installed, the delete call raises \<^verbatim>\<open>KiwiRequestError\<close> and the package request
  is still queued.
\<close>

theorem queues_not_emptied_on_raise:
  "returned (process_delete_requests (demo_world [''a''])
               (request_package ''a'' demo_instance) True) =
     Inl (KiwiRequestError ''None of the requested packages to delete are installed'')
   \<and> package_requests (after (process_delete_requests (demo_world [''a''])
                                (request_package ''a'' demo_instance) True)) = [''a'']"
  by (simp add: Let_def process_delete_requests_def demo_world_def demo_instance_def
      request_package_def)

subsection \<open>C2: deleting when nothing requested is installed\<close>

text \<open>
  Claim C2. When the installed-package query fails for every requested package, the
  delete call raises \<^verbatim>\<open>KiwiRequestError\<close> with its message, a kind of error
  other than that of a failed command, and the commands issued are the queries alone: no
  process is started, so no removal is executed.
\<close>

theorem delete_none_installed:
  assumes "\<forall>p \<in> set (package_requests s).
             \<not> Command_run w [''chroot'', root_dir s, ''rpm'', ''-q'', p]"
  shows "returned (process_delete_requests w s force) =
           Inl (KiwiRequestError ''None of the requested packages to delete are installed'')
         \<and> issued (process_delete_requests w s force) =
             map (\<lambda>p. Run [''chroot'', root_dir s, ''rpm'', ''-q'', p]) (package_requests s)
         \<and> (\<forall>cmd e. Call cmd e \<notin> set (issued (process_delete_requests w s force)))"
proof -
  have "filter (\<lambda>p. Command_run w [''chroot'', root_dir s, ''rpm'', ''-q'', p])
          (package_requests s) = []"
    using assms by (simp add: filter_empty_conv)
  then show ?thesis
    by (auto simp add: process_delete_requests_def delete_loop_filter)
qed

theorem delete_none_installed_witness:
  "returned (process_delete_requests (demo_world [''a'', ''b''])
               (request_package ''b'' (request_package ''a'' demo_instance)) False) =
     Inl (KiwiRequestError ''None of the requested packages to delete are installed'')
   \<and> issued (process_delete_requests (demo_world [''a'', ''b''])
               (request_package ''b'' (request_package ''a'' demo_instance)) False) =
     [Run [''chroot'', ''/mnt'', ''rpm'', ''-q'', ''a''],
      Run [''chroot'', ''/mnt'', ''rpm'', ''-q'', ''b'']]"
  using delete_none_installed [of "request_package ''b'' (request_package ''a'' demo_instance)"
      "demo_world [''a'', ''b'']" False]
  by (simp add: Let_def demo_world_def demo_instance_def request_package_def)

subsection \<open>C3: deleting exactly the installed packages\<close>

text \<open>
  Claim C3. When the query succeeds for at least one requested package, the delete call
  issues one query per requested package and then a single removal, whose arguments are
  the fixed flags \<^verbatim>\<open>--nodeps --allmatches --noscripts\<close> followed by exactly the
  requested packages whose query succeeded, in the order of the requests. The failed
  queries do not show in what the call returns: that is the handle of the removal, or the
  failure of the removal itself.
\<close>

theorem delete_confirmed_only:
  assumes "\<exists>p \<in> set (package_requests s).
             Command_run w [''chroot'', root_dir s, ''rpm'', ''-q'', p]"
  shows "(let confirmed = filter (\<lambda>p. Command_run w [''chroot'', root_dir s, ''rpm'', ''-q'', p])
                            (package_requests s);
              removal = [''chroot'', root_dir s, ''rpm'', ''-e'',
                         ''--nodeps'', ''--allmatches'', ''--noscripts''] @ confirmed;
              out = process_delete_requests w s force
          in issued out =
               map (\<lambda>p. Run [''chroot'', root_dir s, ''rpm'', ''-q'', p]) (package_requests s)
               @ [Call removal (command_env s)]
           \<and> returned out =
               (if Command_call w removal (command_env s)
                then Inr (Process removal (command_env s))
                else Inl (CommandFailure removal)))"
proof -
  have "filter (\<lambda>p. Command_run w [''chroot'', root_dir s, ''rpm'', ''-q'', p])
          (package_requests s) \<noteq> []"
    using assms by (simp add: filter_empty_conv)
  then show ?thesis
    by (simp add: process_delete_requests_def delete_loop_filter Let_def)
qed

theorem delete_confirmed_only_witness:
  "issued (process_delete_requests (demo_world [''b''])
             (request_package ''b'' (request_package ''a'' demo_instance)) False) =
     [Run [''chroot'', ''/mnt'', ''rpm'', ''-q'', ''a''],
      Run [''chroot'', ''/mnt'', ''rpm'', ''-q'', ''b''],
      Call [''chroot'', ''/mnt'', ''rpm'', ''-e'', ''--nodeps'', ''--allmatches'',
            ''--noscripts'', ''a''] []]"
  using delete_confirmed_only [of "request_package ''b'' (request_package ''a'' demo_instance)"
      "demo_world [''b'']" False]
  by (simp add: Let_def demo_world_def demo_instance_def request_package_def)

subsection \<open>C4: exclusions stay in the custom arguments\<close>

text \<open>
  Claim C4. After an exclusion of \<open>pkgX\<close> is requested and a chroot install is
  processed, the custom arguments contain \<^verbatim>\<open>--exclude=pkgX\<close>, while the exclusion
  queue has been emptied once the database rebuild succeeded. The token stays in the
  custom arguments over any later sequence of method calls on the instance, and it is one
  of the words of the shell command any later chroot install synthesizes.
\<close>

theorem exclusion_persists:
  assumes "excluded = after (process_install_requests w (request_package_exclusion pkgX start))"
    and "later = invoke_all ms excluded"
  shows "''--exclude='' @ pkgX \<in> set (custom_args excluded)
     \<and> (Command_run w [''chroot'', root_dir start, ''rpm'', ''--rebuilddb'']
          \<longrightarrow> exclude_requests excluded = [])
     \<and> ''--exclude='' @ pkgX \<in> set (custom_args later)
     \<and> (Command_run w' [''chroot'', root_dir later, ''rpm'', ''--rebuilddb''] \<longrightarrow>
          (\<exists>ts. issued (process_install_requests w' later) =
                  [Run [''chroot'', root_dir later, ''rpm'', ''--rebuilddb''],
                   Call [''bash'', ''-c'', join '' '' ts] (command_env later)]
                \<and> ''--exclude='' @ pkgX \<in> set ts))"
proof -
  have in1: "''--exclude='' @ pkgX \<in> set (custom_args excluded)"
    by (simp add: assms(1) custom_args_after_install request_package_exclusion_def)
  have cleared: "Command_run w [''chroot'', root_dir start, ''rpm'', ''--rebuilddb'']
          \<Longrightarrow> exclude_requests excluded = []"
    by (simp add: assms(1) process_install_requests_def Let_def request_package_exclusion_def)
  have in2: "''--exclude='' @ pkgX \<in> set (custom_args later)"
    unfolding assms(2) using exclude_not_strong_flag in1 by (rule invoke_all_keeps_token)
  have cmd: "\<exists>ts. issued (process_install_requests w' later) =
                  [Run [''chroot'', root_dir later, ''rpm'', ''--rebuilddb''],
                   Call [''bash'', ''-c'', join '' '' ts] (command_env later)]
                \<and> ''--exclude='' @ pkgX \<in> set ts"
    if "Command_run w' [''chroot'', root_dir later, ''rpm'', ''--rebuilddb'']"
    using install_command_tokens [OF that] in2 by blast
  from in1 cleared in2 cmd show ?thesis by blast
qed

theorem exclusion_persists_witness:
  "''--exclude=pkgX'' \<in> set (custom_args
       (after (process_install_requests (demo_world [])
                 (request_package_exclusion ''pkgX'' demo_instance))))
   \<and> exclude_requests
       (after (process_install_requests (demo_world [])
                 (request_package_exclusion ''pkgX'' demo_instance))) = []
   \<and> issued (process_install_requests (demo_world [])
        (invoke_all [(demo_world [], Process_plus_recommended),
                     (demo_world [], Request_package ''vim'')]
           (after (process_install_requests (demo_world [])
                     (request_package_exclusion ''pkgX'' demo_instance))))) =
       [Run [''chroot'', ''/mnt'', ''rpm'', ''--rebuilddb''],
        Call [''bash'', ''-c'',
              ''chroot /mnt yum-deprecated -y --exclude=pkgX install vim''] []]"
proof -
  let ?s1 = "after (process_install_requests (demo_world [])
                      (request_package_exclusion ''pkgX'' demo_instance))"
  let ?ms = "[(demo_world [], Process_plus_recommended),
              (demo_world [], Request_package ''vim'')]"
  have run1: "Command_run (demo_world []) [''chroot'', root_dir demo_instance, ''rpm'', ''--rebuilddb'']"
    by (simp add: demo_world_def)
  have run2: "Command_run (demo_world [])
                [''chroot'', root_dir (invoke_all ?ms ?s1), ''rpm'', ''--rebuilddb'']"
    by (simp add: demo_world_def)
  have cmd: "issued (process_install_requests (demo_world []) (invoke_all ?ms ?s1)) =
       [Run [''chroot'', ''/mnt'', ''rpm'', ''--rebuilddb''],
        Call [''bash'', ''-c'',
              ''chroot /mnt yum-deprecated -y --exclude=pkgX install vim''] []]"
    by (simp add: Let_def process_install_requests_def demo_world_def demo_instance_def
        request_package_exclusion_def request_package_def process_plus_recommended_def
        get_yum_binary_name_def os_sep_def strong_flag_def)
  from run1 run2 cmd
    exclusion_persists [where w = "demo_world []" and pkgX = "''pkgX''"
      and start = demo_instance and ms = ?ms and w' = "demo_world []", OF refl refl]
  show ?thesis by simp
qed

subsection \<open>C5: the two steps of a bootstrap install\<close>

text \<open>
  Claim C5. A bootstrap install first runs \<^verbatim>\<open><binary> <base_args> makecache\<close>; when
  that fails the failure is what the call raises and nothing else is issued. Otherwise
  exactly one more step follows, a shell started on one command string: without
  collections the install command alone, with no \<^verbatim>\<open>&&\<close> part added; with
  collections the same install command followed by \<^verbatim>\<open> && \<close> and the group install
  \<^verbatim>\<open><binary> <base_args> --installroot <root_dir> <custom_args> groupinstall <collections>\<close>.
\<close>

theorem bootstrap_two_steps:
  "(let yum = get_yum_binary_name w None;
        makecache = [yum] @ yum_args s @ [''makecache''];
        prefix = [yum] @ yum_args s @ [''--installroot'', root_dir s] @ custom_args s;
        install = join '' '' (prefix @ [''install''] @ package_requests s);
        groupinstall = join '' '' (prefix @ [''groupinstall''] @ collection_requests s);
        out = process_install_requests_bootstrap w s
    in (\<not> Command_run w makecache \<longrightarrow>
          returned out = Inl (CommandFailure makecache) \<and> issued out = [Run makecache])
     \<and> (Command_run w makecache \<and> collection_requests s = [] \<longrightarrow>
          issued out = [Run makecache, Call [''bash'', ''-c'', install] (command_env s)])
     \<and> (Command_run w makecache \<and> collection_requests s \<noteq> [] \<longrightarrow>
          issued out =
            [Run makecache,
             Call [''bash'', ''-c'', install @ '' && '' @ groupinstall] (command_env s)]))"
proof -
  have failed: "returned (process_install_requests_bootstrap w s) =
                  Inl (CommandFailure ([get_yum_binary_name w None] @ yum_args s @ [''makecache'']))
                \<and> issued (process_install_requests_bootstrap w s) =
                  [Run ([get_yum_binary_name w None] @ yum_args s @ [''makecache''])]"
    if "\<not> Command_run w ([get_yum_binary_name w None] @ yum_args s @ [''makecache''])"
    using that by (simp add: process_install_requests_bootstrap_def Let_def)
  show ?thesis
  proof (cases "Command_run w ([get_yum_binary_name w None] @ yum_args s @ [''makecache''])")
    case True
    from bootstrap_issued [OF True] True show ?thesis
      by (simp add: Let_def del: join.simps)
  next
    case False
    from failed [OF False] False show ?thesis
      by (simp add: Let_def del: join.simps)
  qed
qed

theorem bootstrap_two_steps_witness:
  "issued (process_install_requests_bootstrap (demo_world [])
             (request_package ''x'' demo_instance)) =
     [Run [''yum'', ''-y'', ''makecache''],
      Call [''bash'', ''-c'', ''yum -y --installroot /mnt install x''] []]
   \<and> issued (process_install_requests_bootstrap (demo_world [])
               (request_collection ''grp'' (request_package ''x'' demo_instance))) =
     [Run [''yum'', ''-y'', ''makecache''],
      Call [''bash'', ''-c'',
            ''yum -y --installroot /mnt install x && yum -y --installroot /mnt groupinstall ''
            @ [dquote] @ ''grp'' @ [dquote]] []]
   \<and> returned (process_install_requests_bootstrap (demo_world [''makecache''])
                 (request_package ''x'' demo_instance)) =
     Inl (CommandFailure [''yum'', ''-y'', ''makecache''])"
  using bootstrap_two_steps [of "demo_world []" "request_package ''x'' demo_instance"]
    bootstrap_two_steps [of "demo_world []"
      "request_collection ''grp'' (request_package ''x'' demo_instance)"]
    bootstrap_two_steps [of "demo_world [''makecache'']" "request_package ''x'' demo_instance"]
  by (simp add: demo_world_def demo_instance_def request_package_def request_collection_def
      get_yum_binary_name_def Let_def)

subsection \<open>C6: the strong-requires flag\<close>

text \<open>
  Claim C6, as the code has it. Provided the custom arguments given at construction
  contain the flag \<^verbatim>\<open>--setopt=requires_policy=strong\<close> at most once, it occurs at
  most once in the custom arguments after any sequence of method calls; in every such
  state \<^verbatim>\<open>process_only_required\<close> is idempotent and leaves the flag exactly once,
  \<^verbatim>\<open>process_plus_recommended\<close> is idempotent and leaves it absent, and the weak
  toggle followed by the strong one leaves it exactly once.
\<close>

theorem strong_flag_at_most_once:
  assumes "count_list (case args of None \<Rightarrow> [] | Some a \<Rightarrow> a) strong_flag \<le> 1"
    and "s = invoke_all ms (post_init args runtime_yum_args runtime_command_env s0)"
  shows "count_list (custom_args s) strong_flag \<le> 1
     \<and> process_only_required (process_only_required s) = process_only_required s
     \<and> count_list (custom_args (process_only_required s)) strong_flag = 1
     \<and> process_plus_recommended (process_plus_recommended s) = process_plus_recommended s
     \<and> count_list (custom_args (process_plus_recommended s)) strong_flag = 0
     \<and> count_list (custom_args (process_only_required (process_plus_recommended s)))
          strong_flag = 1"
proof -
  have "count_list (custom_args (post_init args runtime_yum_args runtime_command_env s0))
          strong_flag \<le> 1"
    using assms(1) by (cases args) (simp_all add: post_init_def)
  then have inv: "count_list (custom_args s) strong_flag \<le> 1"
    unfolding assms(2) by (rule invoke_all_keeps_at_most_once)
  have "count_list (custom_args (process_plus_recommended s)) strong_flag \<le> 1"
    using plus_recommended_count [OF inv] by simp
  then have "count_list (custom_args (process_only_required (process_plus_recommended s)))
          strong_flag = 1"
    by (rule only_required_count)
  with inv only_required_idem only_required_count [OF inv] plus_recommended_idem [OF inv]
    plus_recommended_count [OF inv]
  show ?thesis by simp
qed

theorem strong_flag_at_most_once_witness:
  "count_list (custom_args
     (invoke_all [(demo_world [], Process_only_required),
                  (demo_world [], Process_plus_recommended),
                  (demo_world [], Process_only_required),
                  (demo_world [], Process_only_required)]
        (post_init (Some [''--nogpgcheck'']) [''-y''] [] demo_instance))) strong_flag = 1"
proof -
  let ?s = "invoke_all [(demo_world [], Process_only_required),
                  (demo_world [], Process_plus_recommended),
                  (demo_world [], Process_only_required),
                  (demo_world [], Process_only_required)]
        (post_init (Some [''--nogpgcheck'']) [''-y''] [] demo_instance)"
  have h: "count_list (case Some [''--nogpgcheck''] of None \<Rightarrow> [] | Some a \<Rightarrow> a) strong_flag \<le> 1"
    by (simp add: strong_flag_def)
  have eq: "process_only_required ?s = ?s"
    by (simp add: process_only_required_def process_plus_recommended_def post_init_def
        strong_flag_def)
  from strong_flag_at_most_once [OF h refl, of "[(demo_world [], Process_only_required),
                  (demo_world [], Process_plus_recommended),
                  (demo_world [], Process_only_required),
                  (demo_world [], Process_only_required)]" "[''-y'']" "[]" demo_instance]
  have "count_list (custom_args (process_only_required ?s)) strong_flag = 1"
    by blast
  then show ?thesis by (simp only: eq)
qed

text \<open>
  Without the proviso the claim fails: constructed with the flag given twice, the custom
  arguments hold it twice, and \<^verbatim>\<open>process_plus_recommended\<close>, which removes one
  occurrence, is not idempotent.
\<close>

theorem strong_flag_twice_counterexample:
  "count_list (custom_args (post_init (Some [strong_flag, strong_flag]) [] [] demo_instance))
     strong_flag = 2
   \<and> custom_args (process_plus_recommended (process_plus_recommended
        (post_init (Some [strong_flag, strong_flag]) [] [] demo_instance))) \<noteq>
     custom_args (process_plus_recommended
        (post_init (Some [strong_flag, strong_flag]) [] [] demo_instance))"
  by (simp add: post_init_def process_plus_recommended_def)

subsection \<open>C7: the install matcher\<close>

text \<open>
  Claim C7, as the code has it. The pattern compiles for every package name, the name
  being read as its literal characters, and \<^verbatim>\<open>match_package_installed\<close> finds a
  match exactly when the text consists of any characters other than newline, then
  \<^verbatim>\<open>Installing : \<close>, then the name, then anything. The match is anchored at the
  start of the text, but the pattern opens with \<^verbatim>\<open>.*\<close>, so the phrase need not
  stand at the start of the line. For the name \<^verbatim>\<open>foo\<close> both the line
  \<^verbatim>\<open>Installing : foo-1.0\<close> and the line \<^verbatim>\<open>Installing : foobar-1.0\<close> match.
\<close>

theorem installed_line_matches:
  "match_package_installed name line =
     Some (\<exists>pre rest. line = pre @ ''Installing : '' @ name @ rest \<and> newline \<notin> set pre)
   \<and> match_package_installed ''foo'' ''Installing : foo-1.0'' = Some True
   \<and> match_package_installed ''foo'' ''Installing : foobar-1.0'' = Some True"
proof -
  let ?lits = "map (\<lambda>c. One (Literal c)) (''Installing : '' @ name)"
  have tail: "match_here (?lits @ [Many Dot]) t \<longleftrightarrow> (\<exists>rest. t = (''Installing : '' @ name) @ rest)"
    for t
    by (simp only: match_here_literals match_here_trailing simp_thms)
  have "match_here (Many Dot # ?lits @ [Many Dot]) line \<longleftrightarrow>
          (\<exists>pre t. line = pre @ t \<and> newline \<notin> set pre \<and> match_here (?lits @ [Many Dot]) t)"
    by (rule match_here_dot_star)
  also have "\<dots> \<longleftrightarrow>
          (\<exists>pre rest. line = pre @ (''Installing : '' @ name) @ rest \<and> newline \<notin> set pre)"
    unfolding tail by blast
  finally have "match_here (Many Dot # ?lits @ [Many Dot]) line \<longleftrightarrow>
          (\<exists>pre rest. line = pre @ ''Installing : '' @ name @ rest \<and> newline \<notin> set pre)"
    by (simp only: append_assoc)
  then have "match_package_installed name line =
     Some (\<exists>pre rest. line = pre @ ''Installing : '' @ name @ rest \<and> newline \<notin> set pre)"
    by (simp only: match_package_installed_def re_match_def install_pattern_compiles
        option.map)
  with installed_example_exact installed_example_prefix show ?thesis
    by (intro conjI)
qed

text \<open>
  A line of transaction output that is indented matches, though it does not begin with
  the phrase.
\<close>

theorem installed_line_not_anchored_counterexample:
  "match_package_installed ''foo'' ''  Installing : foo-1.0'' = Some True
   \<and> \<not> spec_line_reports_install ''foo'' ''  Installing : foo-1.0''"
  by code_simp

subsection \<open>C8: collections are stored quoted\<close>

text \<open>
  Claim C8. \<^verbatim>\<open>request_collection\<close> appends the name between two double-quote
  characters to the collections requested so far, whatever they are. When that is the
  only collection requested, the command string of a
  bootstrap install, and likewise of a chroot install, ends in the group install whose
  last word is that quoted token.
\<close>

theorem quoted_collection_in_command:
  "collection_requests (request_collection name s) =
     collection_requests s @ [[dquote] @ name @ [dquote]]
   \<and> (collection_requests s = [] \<longrightarrow>
      (Command_run w ([get_yum_binary_name w None] @ yum_args s @ [''makecache'']) \<longrightarrow>
        issued (process_install_requests_bootstrap w (request_collection name s)) =
          [Run ([get_yum_binary_name w None] @ yum_args s @ [''makecache'']),
           Call [''bash'', ''-c'',
                 join '' '' ([get_yum_binary_name w None] @ yum_args s
                             @ [''--installroot'', root_dir s] @ custom_args s
                             @ [''install''] @ package_requests s)
                 @ '' && ''
                 @ join '' '' ([get_yum_binary_name w None] @ yum_args s
                               @ [''--installroot'', root_dir s] @ custom_args s
                               @ [''groupinstall'', [dquote] @ name @ [dquote]])]
             (command_env s)])
    \<and> (Command_run w [''chroot'', root_dir s, ''rpm'', ''--rebuilddb''] \<longrightarrow>
        issued (process_install_requests w (request_collection name s)) =
          [Run [''chroot'', root_dir s, ''rpm'', ''--rebuilddb''],
           Call [''bash'', ''-c'',
                 join '' '' ([''chroot'', root_dir s,
                              get_yum_binary_name w (Some (root_dir s))]
                             @ move_to_root w (yum_args s)
                             @ custom_args s @ map ((@) ''--exclude='') (exclude_requests s)
                             @ [''install''] @ package_requests s)
                 @ '' && ''
                 @ join '' '' ([''chroot'', root_dir s,
                                get_yum_binary_name w (Some (root_dir s))]
                               @ move_to_root w (yum_args s)
                               @ custom_args s @ map ((@) ''--exclude='') (exclude_requests s)
                               @ [''groupinstall'', [dquote] @ name @ [dquote]])]
             (command_env s)]))"
proof -
  let ?s = "request_collection name s"
  have stored: "collection_requests ?s = collection_requests s @ [[dquote] @ name @ [dquote]]"
    by (simp add: request_collection_def)
  have sole: ?thesis if assms: "collection_requests s = []"
  proof -
  have fields: "collection_requests ?s = [[dquote] @ name @ [dquote]]"
    "yum_args ?s = yum_args s" "root_dir ?s = root_dir s" "custom_args ?s = custom_args s"
    "package_requests ?s = package_requests s" "exclude_requests ?s = exclude_requests s"
    "command_env ?s = command_env s"
    using assms by (simp_all add: request_collection_def)
  have ne: "([[dquote] @ name @ [dquote]] = []) = False" by simp
  have boot: "issued (process_install_requests_bootstrap w ?s) =
          [Run ([get_yum_binary_name w None] @ yum_args s @ [''makecache'']),
           Call [''bash'', ''-c'',
                 join '' '' ([get_yum_binary_name w None] @ yum_args s
                             @ [''--installroot'', root_dir s] @ custom_args s
                             @ [''install''] @ package_requests s)
                 @ '' && ''
                 @ join '' '' ([get_yum_binary_name w None] @ yum_args s
                               @ [''--installroot'', root_dir s] @ custom_args s
                               @ [''groupinstall'', [dquote] @ name @ [dquote]])]
             (command_env s)]"
    if "Command_run w ([get_yum_binary_name w None] @ yum_args s @ [''makecache''])"
    using bootstrap_issued [of w ?s] that
    by (simp add: fields del: join.simps)
  have chroot: "issued (process_install_requests w ?s) =
          [Run [''chroot'', root_dir s, ''rpm'', ''--rebuilddb''],
           Call [''bash'', ''-c'',
                 join '' '' ([''chroot'', root_dir s,
                              get_yum_binary_name w (Some (root_dir s))]
                             @ move_to_root w (yum_args s)
                             @ custom_args s @ map ((@) ''--exclude='') (exclude_requests s)
                             @ [''install''] @ package_requests s)
                 @ '' && ''
                 @ join '' '' ([''chroot'', root_dir s,
                                get_yum_binary_name w (Some (root_dir s))]
                               @ move_to_root w (yum_args s)
                               @ custom_args s @ map ((@) ''--exclude='') (exclude_requests s)
                               @ [''groupinstall'', [dquote] @ name @ [dquote]])]
             (command_env s)]"
    if "Command_run w [''chroot'', root_dir s, ''rpm'', ''--rebuilddb'']"
    using install_issued_split [of w ?s] that
    by (simp add: fields del: join.simps)
  from stored boot chroot show ?thesis by blast
  qed
  from stored sole show ?thesis by blast
qed

theorem quoted_collection_in_command_witness:
  "collection_requests (request_collection ''base'' demo_instance) =
     [[dquote] @ ''base'' @ [dquote]]
   \<and> issued (process_install_requests_bootstrap (demo_world [])
               (request_collection ''base'' demo_instance)) =
       [Run [''yum'', ''-y'', ''makecache''],
        Call [''bash'', ''-c'',
              ''yum -y --installroot /mnt install && yum -y --installroot /mnt groupinstall ''
              @ [dquote] @ ''base'' @ [dquote]] []]
   \<and> issued (process_install_requests (demo_world [])
               (request_collection ''base'' demo_instance)) =
       [Run [''chroot'', ''/mnt'', ''rpm'', ''--rebuilddb''],
        Call [''bash'', ''-c'',
              ''chroot /mnt yum-deprecated -y install && chroot /mnt yum-deprecated -y groupinstall ''
              @ [dquote] @ ''base'' @ [dquote]] []]"
proof -
  have h: "collection_requests demo_instance = []"
    by (simp add: demo_instance_def)
  from h quoted_collection_in_command [of "''base''" demo_instance "demo_world []"]
  show ?thesis
    by (simp add: demo_world_def demo_instance_def get_yum_binary_name_def os_sep_def)
qed

subsection \<open>C9: the name of the yum binary\<close>

text \<open>
  Claim C9. With no root the probe for \<^verbatim>\<open>yum-deprecated\<close> with execute permission
  uses the ambient lookup path; with a root \<open>r\<close> it uses the lookup path
  \<^verbatim>\<open>r/usr/bin\<close> alone. The result is \<^verbatim>\<open>yum-deprecated\<close> when the probe finds
  the file and \<^verbatim>\<open>yum\<close> otherwise; it is always one of the two names, never an
  error. (A root is given when it is a non-empty string, as the source's test
  \<^verbatim>\<open>if root\<close> reads it; see \<open>yum_binary_name_empty_root\<close>.)
\<close>

theorem yum_binary_name_resolved:
  "(root = None \<longrightarrow>
      get_yum_binary_name w root =
        (if truthy (Path_which w ''yum-deprecated'' None X_OK)
         then ''yum-deprecated'' else ''yum''))
   \<and> (\<forall>r. root = Some r \<and> r \<noteq> [] \<longrightarrow>
        get_yum_binary_name w root =
          (if truthy (Path_which w ''yum-deprecated''
                        (Some [(''PATH'', r @ ''/usr/bin'')]) X_OK)
           then ''yum-deprecated'' else ''yum''))
   \<and> get_yum_binary_name w root \<in> {''yum'', ''yum-deprecated''}"
  by (auto simp add: get_yum_binary_name_def os_sep_def)

theorem yum_binary_name_resolved_witness:
  "get_yum_binary_name (demo_world []) (Some ''/mnt'') = ''yum-deprecated''
   \<and> get_yum_binary_name (demo_world []) None = ''yum''
   \<and> get_yum_binary_name (demo_world []) (Some ''/srv'') = ''yum''"
  using yum_binary_name_resolved [of "Some ''/mnt''" "demo_world []"]
    yum_binary_name_resolved [of None "demo_world []"]
    yum_binary_name_resolved [of "Some ''/srv''" "demo_world []"]
  by (simp add: demo_world_def)

subsection \<open>C10: the force argument of a delete\<close>

text \<open>
  Claim C10. What a delete call issues, returns or raises, and how it leaves the
  instance, is the same whether \<^verbatim>\<open>force\<close> is true or false.
\<close>

theorem delete_force_irrelevant:
  "process_delete_requests w s True = process_delete_requests w s False"
  by (simp add: process_delete_requests_def)

end
